theory Spec2Isabelle
  imports
    Main
    "HOL-Library.AList"
    "HOL-Library.Multiset"
    "HOL-Library.Char_ord"
    "HOL-Library.List_Lexorder"
    "HOL-Library.Product_Lexorder"
begin

section \<open>The UIDAI dashboard (app.py)\<close>

text \<open>
  The program is one script: it loads two CSV files, filters the master table by the
  state chosen in the sidebar and renders one of four pages. The embedding follows the
  script top to bottom. The pandas operations the script calls (boolean-mask selection,
  \<^verbatim>\<open>sum\<close>, \<^verbatim>\<open>groupby(...).sum()\<close>, \<^verbatim>\<open>idxmax\<close>, \<^verbatim>\<open>nlargest\<close>, \<^verbatim>\<open>fillna\<close>, \<^verbatim>\<open>dropna\<close>,
  \<^verbatim>\<open>to_datetime\<close>) are written out as list functions with the behaviour pandas has for
  the defaults the script uses.
\<close>

subsection \<open>Errors and cells\<close>

text \<open>
  The exceptions the script can meet. Only \<^verbatim>\<open>FileNotFoundError\<close> is caught (line 50).
\<close>

datatype error = FileNotFoundError | KeyError string | ValueError | TypeError

text \<open>
  A cell of a data frame read by \<^verbatim>\<open>read_csv\<close>: missing (NaN, and NaT once the column
  holds timestamps), text, a number, or a timestamp (nanoseconds since the epoch) after
  \<^verbatim>\<open>to_datetime\<close>.
\<close>

datatype cell = NaN | Str string | Num int | Timestamp int

subsection \<open>The master table\<close>

text \<open>
  One row of \<^verbatim>\<open>master_uidai_data_cleaned.csv\<close>, with the columns the script reads.
  The type parameter is the type of the \<^verbatim>\<open>date\<close> column: a raw \<^typ>\<open>cell\<close> as read, an
  optional timestamp (\<open>None\<close> is NaT) once \<^verbatim>\<open>load_master_data\<close> has converted it.
  A text column holds \<open>None\<close> where the field is blank (\<^verbatim>\<open>read_csv\<close> gives NaN).
  \<^verbatim>\<open>Count\<close> holds the field as read: \<open>Num n\<close> for an integer, \<open>NaN\<close> for a blank, \<open>Str\<close>
  for anything else.
\<close>

record 'd master_row =
  date :: 'd
  state :: "string option"
  district :: "string option"
  Type :: "string option"
  Age_Group :: "string option"
  Count :: cell

text \<open>
  The type pandas gives the \<^verbatim>\<open>Count\<close> column. It belongs to the frame, not to its rows:
  a filtered view keeps the type of the table it was taken from.
\<close>

datatype dtype = Int64 | Float64 | Object

record 'd master_frame =
  count_dtype :: dtype
  rows :: "'d master_row list"

subsection \<open>Arithmetic of the \<^verbatim>\<open>Count\<close> column\<close>

text \<open>
  An \<^verbatim>\<open>int64\<close> column is summed and compared here as pandas does it: in 64-bit two's
  complement, where a sum that leaves the range wraps around. The arithmetic of a column
  of any other type (floating point for a column with a blank or a fraction, Python
  objects for text) is pandas' own and is a parameter of the model, as is the decision
  whether such a column is numeric:
  \<^item> \<open>numeric_other cs\<close>: a non-empty column that is not all \<^verbatim>\<open>int64\<close> integers is numeric;
  \<^item> \<open>sum_other cs\<close>: \<^verbatim>\<open>Series.sum()\<close> of a non-empty selection of such a column;
  \<^item> \<open>group_sum_other cs\<close>: the sum \<^verbatim>\<open>groupby(...).sum()\<close> gives one group of it;
  \<^item> \<open>less_other a b\<close>: the comparison of two such sums.
\<close>

record arith =
  numeric_other :: "cell list \<Rightarrow> bool"
  sum_other :: "cell list \<Rightarrow> error + cell"
  group_sum_other :: "cell list \<Rightarrow> error + cell"
  less_other :: "cell \<Rightarrow> cell \<Rightarrow> bool"

definition int64_range :: "int \<Rightarrow> bool" where
  "int64_range n = (- (2 ^ 63) \<le> n \<and> n < 2 ^ 63)"

definition int64_cell :: "cell \<Rightarrow> bool" where
  "int64_cell c = (case c of Num n \<Rightarrow> int64_range n | _ \<Rightarrow> False)"

text \<open>
  The type \<^verbatim>\<open>read_csv\<close> infers for the column: \<^verbatim>\<open>object\<close> for a file without rows,
  \<^verbatim>\<open>int64\<close> when every field is an integer of that range.
\<close>

definition infer_dtype :: "arith \<Rightarrow> cell list \<Rightarrow> dtype" where
  "infer_dtype ar cs =
     (if cs = [] then Object
      else if list_all int64_cell cs then Int64
      else if numeric_other ar cs then Float64
      else Object)"

text \<open>The value of a 64-bit two's complement integer after an operation on integers.\<close>

definition wrap64 :: "int \<Rightarrow> int" where
  "wrap64 n = (n + 2 ^ 63) mod 2 ^ 64 - 2 ^ 63"

definition count_value :: "cell \<Rightarrow> int" where
  "count_value c = (case c of Num n \<Rightarrow> n | _ \<Rightarrow> 0)"

text \<open>\<^verbatim>\<open>Series.sum()\<close>; the sum of an empty selection is zero for every type.\<close>

definition series_sum :: "arith \<Rightarrow> dtype \<Rightarrow> cell list \<Rightarrow> error + cell" where
  "series_sum ar dt cs =
     (if cs = [] then Inr (Num 0)
      else case dt of
        Int64 \<Rightarrow> Inr (Num (wrap64 (sum_list (map count_value cs))))
      | _ \<Rightarrow> sum_other ar cs)"

text \<open>The sum of one group of \<^verbatim>\<open>groupby(...).sum()\<close>.\<close>

definition group_sum :: "arith \<Rightarrow> dtype \<Rightarrow> cell list \<Rightarrow> error + cell" where
  "group_sum ar dt cs =
     (case dt of
        Int64 \<Rightarrow> Inr (Num (wrap64 (sum_list (map count_value cs))))
      | _ \<Rightarrow> group_sum_other ar cs)"

text \<open>The order of two sums.\<close>

definition cell_less :: "arith \<Rightarrow> dtype \<Rightarrow> cell \<Rightarrow> cell \<Rightarrow> bool" where
  "cell_less ar dt a b =
     (case dt of Int64 \<Rightarrow> count_value a < count_value b | _ \<Rightarrow> less_other ar a b)"

subsection \<open>pandas operations on columns\<close>

text \<open>
  \<^verbatim>\<open>pd.to_datetime\<close> on one cell. The parser itself belongs to pandas, so it is the
  parameter \<open>conv\<close>: \<open>conv c = Some t\<close> when the non-missing cell \<open>c\<close> denotes the
  timestamp \<open>t\<close>, \<open>None\<close> when pandas rejects it (a \<^verbatim>\<open>ValueError\<close>). A missing cell
  becomes NaT.
\<close>

definition to_datetime_cell :: "(cell \<Rightarrow> int option) \<Rightarrow> cell \<Rightarrow> int option option" where
  "to_datetime_cell conv c = (if c = NaN then Some None else map_option Some (conv c))"

fun to_datetime :: "(cell \<Rightarrow> int option) \<Rightarrow> cell list \<Rightarrow> error + int option list" where
  "to_datetime conv [] = Inr []"
| "to_datetime conv (c # cs) =
     (case to_datetime_cell conv c of
        None \<Rightarrow> Inl ValueError
      | Some t \<Rightarrow> (case to_datetime conv cs of Inl e \<Rightarrow> Inl e | Inr ts \<Rightarrow> Inr (t # ts)))"

text \<open>A converted column stored back into a frame of cells.\<close>

definition timestamp_cell :: "int option \<Rightarrow> cell" where
  "timestamp_cell t = (case t of None \<Rightarrow> NaN | Some n \<Rightarrow> Timestamp n)"

text \<open>\<^verbatim>\<open>a.fillna(b)\<close> for two columns of one frame: row by row, \<open>b\<close> where \<open>a\<close> is missing.\<close>

definition fillna :: "cell list \<Rightarrow> cell list \<Rightarrow> cell list" where
  "fillna a b = map (\<lambda>(x, y). if x = NaN then y else x) (zip a b)"

text \<open>\<^verbatim>\<open>df[mask]\<close>: the rows whose mask entry is true, in order.\<close>

definition getitem_mask :: "'a list \<Rightarrow> bool list \<Rightarrow> 'a list" where
  "getitem_mask df msk = map fst (filter snd (zip df msk))"

text \<open>The results of a list of steps, or the first exception among them.\<close>

fun collect :: "(error + 'a) list \<Rightarrow> error + 'a list" where
  "collect [] = Inr []"
| "collect (x # xs) =
     (case x of
        Inl e \<Rightarrow> Inl e
      | Inr v \<Rightarrow> (case collect xs of Inl e \<Rightarrow> Inl e | Inr vs \<Rightarrow> Inr (v # vs)))"

text \<open>
  \<^verbatim>\<open>df.groupby(key)[val].sum()\<close> with the defaults \<^verbatim>\<open>sort=True\<close> and \<^verbatim>\<open>dropna=True\<close>: the
  rows whose key is missing are dropped; there is one entry per distinct key, in ascending
  key order, holding the sum of \<open>val\<close> over the rows of that key.
\<close>

definition group_keys :: "('r \<Rightarrow> 'k::linorder option) \<Rightarrow> 'r list \<Rightarrow> 'k list" where
  "group_keys key df = sort (remdups (List.map_filter key df))"

definition groupby_sum ::
  "arith \<Rightarrow> dtype \<Rightarrow> ('r \<Rightarrow> 'k::linorder option) \<Rightarrow> ('r \<Rightarrow> cell) \<Rightarrow> 'r list \<Rightarrow>
     error + ('k \<times> cell) list" where
  "groupby_sum ar dt key val df =
     collect
       (map (\<lambda>k. map_sum id (Pair k) (group_sum ar dt (map val (filter (\<lambda>r. key r = Some k) df))))
         (group_keys key df))"

text \<open>
  \<^verbatim>\<open>Series.idxmax()\<close>: the label of the first occurrence of the maximum; an empty series
  raises \<^verbatim>\<open>ValueError\<close>. The scan keeps the entry it holds unless a later one is strictly
  greater.
\<close>

fun argmax_first :: "('v \<Rightarrow> 'v \<Rightarrow> bool) \<Rightarrow> 'k \<times> 'v \<Rightarrow> ('k \<times> 'v) list \<Rightarrow> 'k \<times> 'v" where
  "argmax_first lt b [] = b"
| "argmax_first lt b (x # xs) = argmax_first lt (if lt (snd b) (snd x) then x else b) xs"

fun idxmax :: "('v \<Rightarrow> 'v \<Rightarrow> bool) \<Rightarrow> ('k \<times> 'v) list \<Rightarrow> error + 'k" where
  "idxmax lt [] = Inl ValueError"
| "idxmax lt (x # xs) = Inr (fst (argmax_first lt x xs))"

text \<open>A stable insertion sort, ascending in the given order.\<close>

fun insert_by :: "('a \<Rightarrow> 'a \<Rightarrow> bool) \<Rightarrow> 'a \<Rightarrow> 'a list \<Rightarrow> 'a list" where
  "insert_by lt x [] = [x]"
| "insert_by lt x (y # ys) = (if lt y x then y # insert_by lt x ys else x # y # ys)"

definition sort_by :: "('a \<Rightarrow> 'a \<Rightarrow> bool) \<Rightarrow> 'a list \<Rightarrow> 'a list" where
  "sort_by lt xs = foldr (insert_by lt) xs []"

text \<open>
  \<^verbatim>\<open>Series.nlargest(n)\<close> with the default \<^verbatim>\<open>keep='first'\<close>: a series of type \<^verbatim>\<open>object\<close>
  raises \<^verbatim>\<open>TypeError\<close>; otherwise the result is the \<open>n\<close> largest entries in descending
  order of value, equal values in their order of occurrence (pandas sorts the reversed
  series with a stable ascending sort and reverses the result).
\<close>

definition nlargest ::
  "arith \<Rightarrow> dtype \<Rightarrow> nat \<Rightarrow> ('k \<times> cell) list \<Rightarrow> error + ('k \<times> cell) list" where
  "nlargest ar dt n s =
     (if dt = Object then Inl TypeError
      else Inr (take n (rev (sort_by (\<lambda>a b. cell_less ar dt (snd a) (snd b)) (rev s)))))"

subsection \<open>Data frames with named columns\<close>

text \<open>
  The forecast file may or may not have each of its columns, so its frame is a list of
  named columns, in file order.
\<close>

type_synonym frame = "(string \<times> cell list) list"

definition in_columns :: "string \<Rightarrow> frame \<Rightarrow> bool" where
  "in_columns name df = (map_of df name \<noteq> None)"

text \<open>\<^verbatim>\<open>df[name]\<close>: a missing column raises \<^verbatim>\<open>KeyError\<close>.\<close>

definition getitem :: "frame \<Rightarrow> string \<Rightarrow> error + cell list" where
  "getitem df name = (case map_of df name of None \<Rightarrow> Inl (KeyError name) | Some c \<Rightarrow> Inr c)"

text \<open>\<^verbatim>\<open>df[name] = col\<close>: replaces the column in place, or appends a new one.\<close>

definition setitem :: "frame \<Rightarrow> string \<Rightarrow> cell list \<Rightarrow> frame" where
  "setitem df name col = AList.update name col df"

text \<open>
  \<^verbatim>\<open>df.dropna(subset=[name])\<close>: keeps the rows whose cell in column \<open>name\<close> is present,
  in every column; a missing column raises \<^verbatim>\<open>KeyError\<close>.
\<close>

definition dropna :: "string \<Rightarrow> frame \<Rightarrow> error + frame" where
  "dropna name df =
     (case map_of df name of
        None \<Rightarrow> Inl (KeyError name)
      | Some c \<Rightarrow> Inr (map (\<lambda>(n, col). (n, getitem_mask col (map (\<lambda>v. v \<noteq> NaN) c))) df))"

text \<open>What \<^verbatim>\<open>read_csv\<close> delivers: every column has one cell per row, names are distinct.\<close>

definition nrows :: "frame \<Rightarrow> nat" where
  "nrows df = (case df of [] \<Rightarrow> 0 | (n, c) # _ \<Rightarrow> length c)"

definition wf_frame :: "frame \<Rightarrow> bool" where
  "wf_frame df = (distinct (map fst df) \<and> list_all (\<lambda>(n, c). length c = nrows df) df)"

subsection \<open>Loading (lines 23 to 52)\<close>

text \<open>\<^verbatim>\<open>pd.read_csv(path)\<close>: the file's table, \<^verbatim>\<open>FileNotFoundError\<close> when there is no file.\<close>

definition read_csv :: "'a option \<Rightarrow> error + 'a" where
  "read_csv file = (case file of None \<Rightarrow> Inl FileNotFoundError | Some df \<Rightarrow> Inr df)"

text \<open>Line 27: the \<^verbatim>\<open>date\<close> column of a row replaced, every other column kept.\<close>

definition set_date :: "'a master_row \<Rightarrow> 'b \<Rightarrow> 'b master_row" where
  "set_date r t =
     \<lparr>date = t, state = state r, district = district r, Type = Type r,
      Age_Group = Age_Group r, Count = Count r\<rparr>"

text \<open>
  Lines 24 to 28. The file is its list of rows; the frame read from it has the type
  inferred for the \<^verbatim>\<open>Count\<close> column.
\<close>

definition load_master_data ::
  "(cell \<Rightarrow> int option) \<Rightarrow> arith \<Rightarrow> cell master_row list option \<Rightarrow>
     error + int option master_frame" where
  "load_master_data conv ar file =
     (case read_csv file of
        Inl e \<Rightarrow> Inl e
      | Inr df \<Rightarrow>
          (case to_datetime conv (map date df) of
             Inl e \<Rightarrow> Inl e
           | Inr ts \<Rightarrow>
               Inr \<lparr>count_dtype = infer_dtype ar (map Count df),
                    rows = map (\<lambda>(r, t). set_date r t) (zip df ts)\<rparr>))"

text \<open>Lines 36 to 41: the three branches that create \<^verbatim>\<open>Combined_Date\<close>.\<close>

definition combine_date :: "frame \<Rightarrow> error + frame" where
  "combine_date df =
     (if in_columns ''Date'' df \<and> in_columns ''date'' df then
        (case getitem df ''Date'' of
           Inl e \<Rightarrow> Inl e
         | Inr D \<Rightarrow>
             (case getitem df ''date'' of
                Inl e \<Rightarrow> Inl e
              | Inr d \<Rightarrow> Inr (setitem df ''Combined_Date'' (fillna D d))))
      else if in_columns ''Date'' df then
        (case getitem df ''Date'' of
           Inl e \<Rightarrow> Inl e
         | Inr D \<Rightarrow> Inr (setitem df ''Combined_Date'' D))
      else
        (case getitem df ''date'' of
           Inl e \<Rightarrow> Inl e
         | Inr d \<Rightarrow> Inr (setitem df ''Combined_Date'' d)))"

definition load_forecast_data :: "(cell \<Rightarrow> int option) \<Rightarrow> frame option \<Rightarrow> error + frame" where
  "load_forecast_data conv file =
     (case read_csv file of
        Inl e \<Rightarrow> Inl e
      | Inr df \<Rightarrow>
          (case combine_date df of
             Inl e \<Rightarrow> Inl e
           | Inr df1 \<Rightarrow>
               (case getitem df1 ''Combined_Date'' of
                  Inl e \<Rightarrow> Inl e
                | Inr c \<Rightarrow>
                    (case to_datetime conv c of
                       Inl e \<Rightarrow> Inl e
                     | Inr ts \<Rightarrow> Inr (setitem df1 ''Combined_Date'' (map timestamp_cell ts))))))"

subsection \<open>The state filter (lines 68 to 74)\<close>

definition df_filtered :: "'d master_frame \<Rightarrow> string \<Rightarrow> 'd master_frame" where
  "df_filtered df_master selected_state =
     (if selected_state \<noteq> ''All India''
      then df_master
        \<lparr>rows := getitem_mask (rows df_master)
           (map (\<lambda>r. state r = Some selected_state) (rows df_master))\<rparr>
      else df_master)"

subsection \<open>The four pages\<close>

datatype page = Executive_Summary | Demographics | Migration_Tracker | AI_Forecast

text \<open>
  What a page hands to the renderer: the three metrics and the trend table; the age
  summary; the top-districts table; the two traces (x values, y values) of the forecast
  figure.
\<close>

datatype view =
    Executive cell cell string "((int \<times> string) \<times> cell) list"
  | Demographic "((string \<times> string) \<times> cell) list"
  | Migration "(string \<times> cell) list"
  | Forecast "cell list \<times> cell list" "cell list \<times> cell list"

text \<open>Lines 83 to 85.\<close>

definition total_enrol :: "arith \<Rightarrow> 'd master_frame \<Rightarrow> error + cell" where
  "total_enrol ar df =
     series_sum ar (count_dtype df)
       (map Count (getitem_mask (rows df) (map (\<lambda>r. Type r = Some ''Enrolment'') (rows df))))"

definition total_updates :: "arith \<Rightarrow> 'd master_frame \<Rightarrow> error + cell" where
  "total_updates ar df =
     series_sum ar (count_dtype df)
       (map Count (getitem_mask (rows df) (map (\<lambda>r. Type r \<noteq> Some ''Enrolment'') (rows df))))"

definition top_district :: "arith \<Rightarrow> 'd master_frame \<Rightarrow> error + string" where
  "top_district ar df =
     (case groupby_sum ar (count_dtype df) district Count (rows df) of
        Inl e \<Rightarrow> Inl e
      | Inr s \<Rightarrow> idxmax (cell_less ar (count_dtype df)) s)"

text \<open>
  Line 94: grouping by \<^verbatim>\<open>['date', 'Type']\<close>; a row is dropped when one of the two keys
  is missing.
\<close>

definition date_type_key :: "int option master_row \<Rightarrow> (int \<times> string) option" where
  "date_type_key r =
     (case (date r, Type r) of (Some d, Some t) \<Rightarrow> Some (d, t) | _ \<Rightarrow> None)"

definition trend_data ::
  "arith \<Rightarrow> int option master_frame \<Rightarrow> error + ((int \<times> string) \<times> cell) list" where
  "trend_data ar df = groupby_sum ar (count_dtype df) date_type_key Count (rows df)"

definition executive_summary :: "arith \<Rightarrow> int option master_frame \<Rightarrow> error + view" where
  "executive_summary ar df =
     (case total_enrol ar df of
        Inl err \<Rightarrow> Inl err
      | Inr e \<Rightarrow>
     (case total_updates ar df of
        Inl err \<Rightarrow> Inl err
      | Inr u \<Rightarrow>
     (case top_district ar df of
        Inl err \<Rightarrow> Inl err
      | Inr d \<Rightarrow>
     (case trend_data ar df of
        Inl err \<Rightarrow> Inl err
      | Inr t \<Rightarrow> Inr (Executive e u d t)))))"

text \<open>Line 110.\<close>

definition type_age_key :: "'d master_row \<Rightarrow> (string \<times> string) option" where
  "type_age_key r =
     (case (Type r, Age_Group r) of (Some t, Some a) \<Rightarrow> Some (t, a) | _ \<Rightarrow> None)"

definition demographics :: "arith \<Rightarrow> 'd master_frame \<Rightarrow> error + view" where
  "demographics ar df =
     (case groupby_sum ar (count_dtype df) type_age_key Count (rows df) of
        Inl e \<Rightarrow> Inl e
      | Inr s \<Rightarrow> Inr (Demographic s))"

text \<open>Lines 133 to 141.\<close>

definition demo_data :: "'d master_frame \<Rightarrow> 'd master_frame" where
  "demo_data df =
     df\<lparr>rows := getitem_mask (rows df)
          (map (\<lambda>r. Type r = Some ''Update_Demographic'') (rows df))\<rparr>"

definition top_districts :: "arith \<Rightarrow> 'd master_frame \<Rightarrow> error + (string \<times> cell) list" where
  "top_districts ar df =
     (case groupby_sum ar (count_dtype (demo_data df)) district Count (rows (demo_data df)) of
        Inl e \<Rightarrow> Inl e
      | Inr s \<Rightarrow> nlargest ar (count_dtype (demo_data df)) 10 s)"

definition migration_tracker :: "arith \<Rightarrow> 'd master_frame \<Rightarrow> error + view" where
  "migration_tracker ar df =
     (case top_districts ar df of Inl e \<Rightarrow> Inl e | Inr t \<Rightarrow> Inr (Migration t))"

text \<open>Lines 157 to 174.\<close>

definition ai_forecast :: "frame \<Rightarrow> error + view" where
  "ai_forecast df_forecast =
     (case getitem df_forecast ''Combined_Date'' of
        Inl e \<Rightarrow> Inl e
      | Inr x \<Rightarrow>
     (case getitem df_forecast ''Actual_Count'' of
        Inl e \<Rightarrow> Inl e
      | Inr y \<Rightarrow>
     (case dropna ''Predicted_Count'' df_forecast of
        Inl e \<Rightarrow> Inl e
      | Inr pred_data \<Rightarrow>
     (case getitem pred_data ''Combined_Date'' of
        Inl e \<Rightarrow> Inl e
      | Inr px \<Rightarrow>
     (case getitem pred_data ''Predicted_Count'' of
        Inl e \<Rightarrow> Inl e
      | Inr py \<Rightarrow> Inr (Forecast (x, y) (px, py)))))))"

subsection \<open>The script\<close>

text \<open>
  The result of one run: a page rendered, the ``Waiting for data...'' state of line 182,
  or an exception that leaves the script.
\<close>

datatype outcome = Rendered view | Waiting | Raised error

definition render ::
  "arith \<Rightarrow> page \<Rightarrow> int option master_frame \<Rightarrow> frame \<Rightarrow> error + view" where
  "render ar p df df_forecast =
     (case p of
        Executive_Summary \<Rightarrow> executive_summary ar df
      | Demographics \<Rightarrow> demographics ar df
      | Migration_Tracker \<Rightarrow> migration_tracker ar df
      | AI_Forecast \<Rightarrow> ai_forecast df_forecast)"

text \<open>Lines 46 to 52: only \<^verbatim>\<open>FileNotFoundError\<close> is caught.\<close>

definition load_data ::
  "(cell \<Rightarrow> int option) \<Rightarrow> arith \<Rightarrow> cell master_row list option \<Rightarrow> frame option \<Rightarrow>
     error + (int option master_frame \<times> frame) option" where
  "load_data conv ar master_csv forecast_csv =
     (case load_master_data conv ar master_csv of
        Inl e \<Rightarrow> (if e = FileNotFoundError then Inr None else Inl e)
      | Inr df_master \<Rightarrow>
          (case load_forecast_data conv forecast_csv of
             Inl e \<Rightarrow> (if e = FileNotFoundError then Inr None else Inl e)
           | Inr df_forecast \<Rightarrow> Inr (Some (df_master, df_forecast))))"

definition app ::
  "(cell \<Rightarrow> int option) \<Rightarrow> arith \<Rightarrow> cell master_row list option \<Rightarrow> frame option \<Rightarrow> page \<Rightarrow>
     string \<Rightarrow> outcome" where
  "app conv ar master_csv forecast_csv p selected_state =
     (case load_data conv ar master_csv forecast_csv of
        Inl e \<Rightarrow> Raised e
      | Inr None \<Rightarrow> Waiting
      | Inr (Some (df_master, df_forecast)) \<Rightarrow>
          (case render ar p (df_filtered df_master selected_state) df_forecast of
             Inl e \<Rightarrow> Raised e
           | Inr v \<Rightarrow> Rendered v))"

subsection \<open>Notions the properties are stated with\<close>

text \<open>
  The \<^verbatim>\<open>Count\<close> column of a frame is an \<^verbatim>\<open>int64\<close> column: it has that type and every
  field is an integer of the 64-bit range. This is what \<^verbatim>\<open>read_csv\<close> delivers for a file
  with at least one row whose \<^verbatim>\<open>Count\<close> fields are all such integers.
\<close>

definition int64_counts :: "'d master_frame \<Rightarrow> bool" where
  "int64_counts df = (count_dtype df = Int64 \<and> list_all (\<lambda>r. int64_cell (Count r)) (rows df))"

text \<open>
  The sum of \<^verbatim>\<open>Count\<close>, as a mathematical integer, over the rows that satisfy \<open>P\<close>; over
  the enrolment rows, over the other rows, over all rows, and over the rows of one district.
\<close>

definition count_sum :: "('d master_row \<Rightarrow> bool) \<Rightarrow> 'd master_frame \<Rightarrow> int" where
  "count_sum P df = sum_list (map (\<lambda>r. count_value (Count r)) (filter P (rows df)))"

definition enrolment_total :: "'d master_frame \<Rightarrow> int" where
  "enrolment_total df = count_sum (\<lambda>r. Type r = Some ''Enrolment'') df"

definition update_total :: "'d master_frame \<Rightarrow> int" where
  "update_total df = count_sum (\<lambda>r. Type r \<noteq> Some ''Enrolment'') df"

definition count_total :: "'d master_frame \<Rightarrow> int" where
  "count_total df = count_sum (\<lambda>r. True) df"

definition district_total :: "'d master_frame \<Rightarrow> string \<Rightarrow> int" where
  "district_total df d = count_sum (\<lambda>r. district r = Some d) df"



text \<open>
  The summed \<^verbatim>\<open>Count\<close> of the \<^verbatim>\<open>Update_Demographic\<close> rows of one district, and the
  districts that have such a row.
\<close>

definition demographic_total :: "'d master_frame \<Rightarrow> string \<Rightarrow> int" where
  "demographic_total df d =
     count_sum (\<lambda>r. Type r = Some ''Update_Demographic'' \<and> district r = Some d) df"

definition demographic_districts :: "'d master_frame \<Rightarrow> string set" where
  "demographic_districts df =
     {d. \<exists>r \<in> set (rows df). Type r = Some ''Update_Demographic'' \<and> district r = Some d}"

text \<open>The cell of row \<open>i\<close> in a column; a column the file does not have holds no value.\<close>

definition cell_at :: "frame \<Rightarrow> string \<Rightarrow> nat \<Rightarrow> cell" where
  "cell_at df name i = (case map_of df name of None \<Rightarrow> NaN | Some c \<Rightarrow> c ! i)"

text \<open>
  The first present value of a row among the two date columns of the file: \<^verbatim>\<open>Date\<close>
  if it is present, otherwise \<^verbatim>\<open>date\<close>.
\<close>

definition first_non_null :: "frame \<Rightarrow> nat \<Rightarrow> cell" where
  "first_non_null csv i =
     (if cell_at csv ''Date'' i \<noteq> NaN then cell_at csv ''Date'' i else cell_at csv ''date'' i)"

subsection \<open>Example inputs\<close>

text \<open>
  One instance of the parameter \<open>conv\<close>: the dates of the examples, as the nanoseconds
  since the epoch that \<^verbatim>\<open>to_datetime\<close> gives them (days since the epoch times the
  nanoseconds of a day); any other cell is rejected.
\<close>

definition example_conv :: "cell \<Rightarrow> int option" where
  "example_conv c =
     (case c of
        Str s \<Rightarrow>
          map_option (\<lambda>d. d * 86400000000000)
            (map_of
              [(''2024-01-01'', 19723), (''2024-02-01'', 19754), (''2024-03-01'', 19783),
               (''2024-04-01'', 19814), (''2024-05-01'', 19844), (''2024-06-01'', 19875),
               (''2024-07-01'', 19905), (''2024-08-01'', 19936), (''2024-09-01'', 19967),
               (''2024-10-01'', 19997)] s)
      | _ \<Rightarrow> None)"

text \<open>The two rows of the date example: each date under one of the two column names.\<close>

definition example_dates_csv :: frame where
  "example_dates_csv =
     [(''Date'', [Str ''2024-01-01'', NaN]), (''date'', [NaN, Str ''2024-02-01''])]"

text \<open>A forecast file of ten rows, three of them with a prediction.\<close>

definition example_forecast_csv :: frame where
  "example_forecast_csv =
     [(''Date'',
        [Str ''2024-01-01'', Str ''2024-02-01'', Str ''2024-03-01'', Str ''2024-04-01'',
         Str ''2024-05-01'', Str ''2024-06-01'', Str ''2024-07-01'', Str ''2024-08-01'',
         Str ''2024-09-01'', Str ''2024-10-01'']),
      (''Actual_Count'',
        [Num 900, Num 880, Num 860, Num 850, Num 830, Num 800, Num 790, NaN, NaN, NaN]),
      (''Predicted_Count'',
        [NaN, NaN, NaN, NaN, NaN, NaN, NaN, Num 770, Num 750, Num 730])]"

text \<open>
  One instance of the arithmetic parameter: it takes every column that is not \<^verbatim>\<open>int64\<close>
  as an \<^verbatim>\<open>object\<close> column and refuses to sum it. The examples have \<^verbatim>\<open>int64\<close> columns or
  no rows, where the parameter plays no part.
\<close>

definition example_arith :: arith where
  "example_arith =
     \<lparr>numeric_other = (\<lambda>cs. False), sum_other = (\<lambda>cs. Inl TypeError),
      group_sum_other = (\<lambda>cs. Inl TypeError), less_other = (\<lambda>a b. False)\<rparr>"

text \<open>
  A master row of the examples; the columns an example leaves open are fixed here. A frame
  with an \<^verbatim>\<open>int64\<close> \<^verbatim>\<open>Count\<close> column.
\<close>

definition example_row :: "string \<Rightarrow> string \<Rightarrow> string \<Rightarrow> int \<Rightarrow> int option master_row" where
  "example_row s d t c =
     \<lparr>date = None, state = Some s, district = Some d, Type = Some t,
      Age_Group = Some ''18+'', Count = Num c\<rparr>"

definition int64_frame :: "'d master_row list \<Rightarrow> 'd master_frame" where
  "int64_frame rs = \<lparr>count_dtype = Int64, rows = rs\<rparr>"

text \<open>
  A master file as read, before the dates are converted, and the frame loaded from it.
\<close>

definition example_master_csv :: "cell master_row list" where
  "example_master_csv =
     [\<lparr>date = Str ''2024-01-01'', state = Some ''S'', district = Some ''A'',
       Type = Some ''Enrolment'', Age_Group = Some ''0-5'', Count = Num 100\<rparr>,
      \<lparr>date = Str ''2024-02-01'', state = Some ''S'', district = Some ''B'',
       Type = Some ''Update_Biometric'', Age_Group = Some ''5-17'', Count = Num 40\<rparr>]"

definition example_master :: "int option master_frame" where
  "example_master =
     int64_frame
       [\<lparr>date = Some 1704067200000000000, state = Some ''S'', district = Some ''A'',
         Type = Some ''Enrolment'', Age_Group = Some ''0-5'', Count = Num 100\<rparr>,
        \<lparr>date = Some 1706745600000000000, state = Some ''S'', district = Some ''B'',
         Type = Some ''Update_Biometric'', Age_Group = Some ''5-17'', Count = Num 40\<rparr>]"

text \<open>
  The three rows of the totals example.
\<close>

definition example_totals :: "int option master_frame" where
  "example_totals =
     int64_frame
       [example_row ''S'' ''A'' ''Enrolment'' 100, example_row ''S'' ''A'' ''Update_Biometric'' 40,
        example_row ''S'' ''A'' ''Update_Demographic'' 10]"

text \<open>
  Tables on which a sum leaves the 64-bit range: district \<open>A\<close> has the counts
  \<open>2\<^sup>6\<^sup>3 - 1\<close> and \<open>1\<close>, district \<open>B\<close> the count \<open>5\<close>.
\<close>

definition example_overflow :: "int option master_frame" where
  "example_overflow =
     int64_frame
       [example_row ''S'' ''A'' ''Enrolment'' 9223372036854775807,
        example_row ''S'' ''A'' ''Enrolment'' 1,
        example_row ''S'' ''B'' ''Update_Biometric'' 5]"

definition example_overflow_demographic :: "int option master_frame" where
  "example_overflow_demographic =
     int64_frame
       [example_row ''S'' ''A'' ''Update_Demographic'' 9223372036854775807,
        example_row ''S'' ''A'' ''Update_Demographic'' 1,
        example_row ''S'' ''B'' ''Update_Demographic'' 5]"

text \<open>
  A table of one row whose district field is blank.
\<close>

definition example_blank_district :: "int option master_frame" where
  "example_blank_district =
     int64_frame
       [\<lparr>date = None, state = Some ''S'', district = None, Type = Some ''Enrolment'',
         Age_Group = Some ''18+'', Count = Num 5\<rparr>]"

text \<open>
  Eleven districts with demographic updates, one of them in two rows, and one enrolment row.
\<close>

definition example_districts :: "int option master_frame" where
  "example_districts =
     int64_frame
     [example_row ''S'' ''d01'' ''Update_Demographic'' 30,
      example_row ''S'' ''d02'' ''Update_Demographic'' 110,
      example_row ''S'' ''d03'' ''Update_Demographic'' 50,
      example_row ''S'' ''d04'' ''Update_Demographic'' 20,
      example_row ''S'' ''d05'' ''Update_Demographic'' 90,
      example_row ''S'' ''d06'' ''Update_Demographic'' 10,
      example_row ''S'' ''d07'' ''Update_Demographic'' 70,
      example_row ''S'' ''d08'' ''Update_Demographic'' 40,
      example_row ''S'' ''d09'' ''Update_Demographic'' 100,
      example_row ''S'' ''d10'' ''Update_Demographic'' 60,
      example_row ''S'' ''d11'' ''Update_Demographic'' 80,
      example_row ''S'' ''d06'' ''Enrolment'' 500,
      example_row ''S'' ''d01'' ''Update_Demographic'' 5]"

section \<open>Properties\<close>

subsection \<open>Selection and sums\<close>

lemma getitem_mask_map: "getitem_mask df (map P df) = filter P df"
  unfolding getitem_mask_def by (induction df) simp_all

lemma sum_list_filter_split:
  "sum_list (map f (filter P xs)) + sum_list (map f (filter (\<lambda>x. \<not> P x) xs)) = sum_list (map f xs)"
  for f :: "'a \<Rightarrow> int"
  by (induction xs) simp_all

lemma getitem_mask_zip:
  "length x = length p \<Longrightarrow>
     zip (getitem_mask x (map P p)) (getitem_mask p (map P p)) = filter (\<lambda>(d, v). P v) (zip x p)"
  unfolding getitem_mask_def by (induction x p rule: list_induct2) simp_all

lemma length_getitem_mask:
  "length x = length p \<Longrightarrow> length (getitem_mask x (map P p)) = length (filter P p)"
  unfolding getitem_mask_def by (induction x p rule: list_induct2) simp_all

subsection \<open>Arithmetic in 64 bits\<close>

lemma wrap64_id: "int64_range n \<Longrightarrow> wrap64 n = n"
  by (simp add: wrap64_def int64_range_def)

lemma int64_range_wrap64: "int64_range (wrap64 n)"
proof -
  have "0 \<le> (n + 2 ^ 63) mod (2 ^ 64 :: int)" "(n + 2 ^ 63) mod (2 ^ 64 :: int) < 2 ^ 64"
    by simp_all
  then show ?thesis by (simp add: wrap64_def int64_range_def)
qed

lemma wrap64_add: "wrap64 (wrap64 a + wrap64 b) = wrap64 (a + b)"
proof -
  have "(wrap64 a + wrap64 b + 2 ^ 63) mod 2 ^ 64 = (a + b + 2 ^ 63) mod (2 ^ 64 :: int)"
  proof -
    have "wrap64 a + wrap64 b + 2 ^ 63
        = (a + 2 ^ 63) mod 2 ^ 64 + (b + 2 ^ 63) mod 2 ^ 64 - 2 ^ 63"
      by (simp add: wrap64_def)
    also have "\<dots> mod 2 ^ 64 = ((a + 2 ^ 63) + (b + 2 ^ 63) - 2 ^ 63) mod (2 ^ 64 :: int)"
      by (intro mod_diff_cong mod_add_cong) simp_all
    finally show ?thesis by (simp add: algebra_simps)
  qed
  then show ?thesis by (simp add: wrap64_def)
qed

lemma series_sum_int64:
  "series_sum ar Int64 cs = Inr (Num (wrap64 (sum_list (map count_value cs))))"
  by (simp add: series_sum_def wrap64_def)

lemma total_enrol_int64:
  "count_dtype df = Int64 \<Longrightarrow> total_enrol ar df = Inr (Num (wrap64 (enrolment_total df)))"
  by (simp add: total_enrol_def series_sum_int64 getitem_mask_map enrolment_total_def
      count_sum_def comp_def)

lemma total_updates_int64:
  "count_dtype df = Int64 \<Longrightarrow> total_updates ar df = Inr (Num (wrap64 (update_total df)))"
  by (simp add: total_updates_def series_sum_int64 getitem_mask_map update_total_def
      count_sum_def comp_def)

lemma enrolment_update_total: "enrolment_total df + update_total df = count_total df"
  unfolding enrolment_total_def update_total_def count_total_def count_sum_def
  using sum_list_filter_split [of "\<lambda>r. count_value (Count r)"
      "\<lambda>r. Type r = Some ''Enrolment''" "rows df"] by simp

subsection \<open>Grouping\<close>

lemma collect_map_Inr: "collect (map (\<lambda>k. Inr (f k)) ks) = Inr (map f ks)"
  by (induction ks) simp_all

lemma set_map_filter: "set (List.map_filter key xs) = {k. Some k \<in> key ` set xs}"
proof (induction xs)
  case Nil
  show ?case by (simp add: List.map_filter_simps)
next
  case (Cons r xs)
  then show ?case by (cases "key r") (auto simp: List.map_filter_simps)
qed

lemma set_group_keys: "set (group_keys key df) = {k. Some k \<in> key ` set df}"
  by (simp add: group_keys_def set_map_filter)


lemma distinct_group_keys: "distinct (group_keys key df)"
  by (simp add: group_keys_def)

lemma groupby_sum_int64:
  "groupby_sum ar Int64 key val df =
     Inr (map (\<lambda>k. (k, Num (wrap64 (sum_list (map count_value
            (map val (filter (\<lambda>r. key r = Some k) df)))))))
          (group_keys key df))"
  by (simp add: groupby_sum_def group_sum_def collect_map_Inr)

lemma groupby_sum_no_rows: "groupby_sum ar dt key val [] = Inr []"
  by (simp add: groupby_sum_def group_keys_def List.map_filter_simps)


subsection \<open>The first maximum\<close>



subsection \<open>The largest entries\<close>

lemma insert_by_insort_key:
  fixes f :: "'a \<Rightarrow> int"
  assumes "\<And>a b. lt a b \<longleftrightarrow> f a < f b"
  shows "insert_by lt x ys = insort_key f x ys"
  by (induction ys) (auto simp: assms)

lemma sort_by_sort_key:
  fixes f :: "'a \<Rightarrow> int"
  assumes "\<And>a b. lt a b \<longleftrightarrow> f a < f b"
  shows "sort_by lt xs = sort_key f xs"
proof -
  have "insert_by lt = insort_key f"
    by (intro ext) (rule insert_by_insort_key [OF assms])
  then show ?thesis by (simp add: sort_by_def sort_key_def)
qed

lemma nlargest_int64:
  "nlargest ar Int64 n s = Inr (take n (rev (sort_key (\<lambda>e. count_value (snd e)) (rev s))))"
proof -
  have "sort_by (\<lambda>a b. cell_less ar Int64 (snd a) (snd b)) (rev s)
      = sort_key (\<lambda>e. count_value (snd e)) (rev s)"
    by (rule sort_by_sort_key) (simp add: cell_less_def)
  then show ?thesis by (simp add: nlargest_def)
qed

lemma largest_descending:
  "sorted_wrt (\<lambda>a b. f b \<le> f a) (rev (sort_key f (rev s)))"
proof -
  have "sorted (map f (sort_key f (rev s)))" by (rule sorted_sort_key)
  then have "sorted_wrt (\<lambda>a b. f a \<le> f b) (sort_key f (rev s))"
    by (simp add: sorted_wrt_map)
  then show ?thesis by (simp add: sorted_wrt_rev)
qed

lemma length_largest: "length (take n (rev (sort_key f (rev s)))) = min n (length s)"
  by (simp add: min.commute)

lemma set_largest: "set (take n (rev (sort_key f (rev s)))) \<subseteq> set s"
proof -
  have "set (take n (rev (sort_key f (rev s)))) \<subseteq> set (rev (sort_key f (rev s)))"
    by (rule set_take_subset)
  then show ?thesis by simp
qed

lemma distinct_largest:
  assumes "distinct (map fst s)"
  shows "distinct (map fst (take n (rev (sort_key f (rev s)))))"
proof -
  let ?t = "rev (sort_key f (rev s))"
  have "mset (map fst ?t) = mset (map fst s)" by simp
  then have "distinct (map fst ?t)" using assms by (metis mset_eq_imp_distinct_iff)
  then show ?thesis unfolding take_map [symmetric] by (rule distinct_take)
qed

lemma sorted_largest: "sorted (rev (map f (take n (rev (sort_key f (rev s))))))"
proof -
  let ?t = "rev (sort_key f (rev s))"
  have "?t = take n ?t @ drop n ?t" by simp
  with largest_descending [of f s]
  have "sorted_wrt (\<lambda>a b. f b \<le> f a) (take n ?t @ drop n ?t)" by simp
  then have "sorted_wrt (\<lambda>a b. f b \<le> f a) (take n ?t)"
    unfolding sorted_wrt_append by blast
  then show ?thesis by (simp add: sorted_wrt_rev sorted_wrt_map flip: rev_map)
qed

lemma largest_dominates:
  assumes "x \<in> set s" "x \<notin> set (take n (rev (sort_key f (rev s))))"
    "y \<in> set (take n (rev (sort_key f (rev s))))"
  shows "f x \<le> f y"
proof -
  let ?t = "rev (sort_key f (rev s))"
  have split: "?t = take n ?t @ drop n ?t" by simp
  have "x \<in> set ?t" using assms(1) by simp
  then have "x \<in> set (take n ?t) \<union> set (drop n ?t)" by (metis split set_append)
  with assms(2) have x: "x \<in> set (drop n ?t)" by simp
  from largest_descending [of f s]
  have "sorted_wrt (\<lambda>a b. f b \<le> f a) (take n ?t @ drop n ?t)" by simp
  then have "\<forall>a \<in> set (take n ?t). \<forall>b \<in> set (drop n ?t). f b \<le> f a"
    unfolding sorted_wrt_append by blast
  with x assms(3) show ?thesis by simp
qed

lemma demo_data_simps:
  "count_dtype (demo_data df) = count_dtype df"
  "rows (demo_data df) = filter (\<lambda>r. Type r = Some ''Update_Demographic'') (rows df)"
  by (simp_all add: demo_data_def getitem_mask_map)

lemma demo_group_keys:
  "set (group_keys district (rows (demo_data df))) = demographic_districts df"
  by (auto simp: set_group_keys demo_data_simps demographic_districts_def image_iff)

lemma demo_group_total:
  "sum_list (map (count_value \<circ> Count)
      (filter (\<lambda>r. district r = Some d) (rows (demo_data df)))) = demographic_total df d"
  by (simp add: demo_data_simps demographic_total_def count_sum_def comp_def conj_commute)

lemma demo_data_no_demographic:
  assumes "list_all (\<lambda>r. Type r \<noteq> Some ''Update_Demographic'') (rows df)"
  shows "rows (demo_data df) = []"
  using assms by (simp add: demo_data_simps list_all_iff filter_empty_conv)

lemma top_districts_no_demographic:
  assumes "list_all (\<lambda>r. Type r \<noteq> Some ''Update_Demographic'') (rows df)"
  shows "top_districts ar df = (if count_dtype df = Object then Inl TypeError else Inr [])"
  by (simp add: top_districts_def demo_data_no_demographic [OF assms] demo_data_simps(1)
      groupby_sum_no_rows nlargest_def sort_by_def)

lemma demographic_districts_list:
  "demographic_districts df =
     set (List.map_filter district (filter (\<lambda>r. Type r = Some ''Update_Demographic'') (rows df)))"
  using demo_group_keys [of df] by (simp add: group_keys_def demo_data_simps)

subsection \<open>The master frame as loaded\<close>

lemma load_master_data_int64:
  assumes "load_master_data conv ar file = Inr df" and "count_dtype df = Int64"
  shows "int64_counts df"
proof -
  from assms(1) obtain rs ts where f: "file = Some rs"
    and t: "to_datetime conv (map date rs) = Inr ts"
    and df: "df = \<lparr>count_dtype = infer_dtype ar (map Count rs),
                  rows = map (\<lambda>(r, t). set_date r t) (zip rs ts)\<rparr>"
    by (auto simp: load_master_data_def read_csv_def split: option.splits sum.splits)
  from assms(2) df have "list_all int64_cell (map Count rs)"
    by (simp add: infer_dtype_def split: if_splits)
  then have "\<forall>r \<in> set rs. int64_cell (Count r)" by (simp add: list_all_iff)
  then have "\<forall>p \<in> set (zip rs ts). int64_cell (Count (set_date (fst p) (snd p)))"
    by (auto simp: set_date_def dest: set_zip_leftD)
  then have "list_all (\<lambda>r. int64_cell (Count r)) (rows df)"
    by (simp add: df list_all_iff case_prod_beta)
  with assms(2) show ?thesis by (simp add: int64_counts_def)
qed

lemma int64_counts_filtered: "int64_counts df \<Longrightarrow> int64_counts (df_filtered df s)"
  by (auto simp: int64_counts_def df_filtered_def getitem_mask_map list_all_iff)

lemma load_master_data_no_rows:
  "load_master_data conv ar (Some []) = Inr \<lparr>count_dtype = Object, rows = []\<rparr>"
  by (simp add: load_master_data_def read_csv_def infer_dtype_def)

subsection \<open>Named columns\<close>

lemma wf_frame_length:
  assumes "wf_frame df" "map_of df name = Some c"
  shows "length c = nrows df"
proof -
  from assms(2) have "(name, c) \<in> set df" by (rule map_of_SomeD)
  with assms(1) show ?thesis by (auto simp: wf_frame_def list_all_iff)
qed

lemma to_datetime_Inr:
  "to_datetime conv cs = Inr ts \<Longrightarrow>
     length ts = length cs \<and> (\<forall>i < length cs. to_datetime_cell conv (cs ! i) = Some (ts ! i))"
proof (induction cs arbitrary: ts)
  case Nil
  then show ?case by simp
next
  case (Cons c cs)
  from Cons.prems obtain t ts' where
    t: "to_datetime_cell conv c = Some t" and r: "to_datetime conv cs = Inr ts'"
    and ts: "ts = t # ts'"
    by (auto split: option.splits sum.splits)
  from Cons.IH [OF r] t ts show ?case by (auto simp: nth_Cons split: nat.splits)
qed

lemma to_datetime_succeeds:
  "(\<forall>i < length cs. to_datetime_cell conv (cs ! i) \<noteq> None) \<Longrightarrow> \<exists>ts. to_datetime conv cs = Inr ts"
proof (induction cs)
  case Nil
  show ?case by simp
next
  case (Cons c cs)
  from Cons.prems have "to_datetime_cell conv ((c # cs) ! 0) \<noteq> None" by blast
  then obtain t where t: "to_datetime_cell conv c = Some t" by auto
  have "\<forall>i < length cs. to_datetime_cell conv (cs ! i) \<noteq> None"
  proof (intro allI impI)
    fix i assume "i < length cs"
    then have "Suc i < length (c # cs)" by simp
    with Cons.prems have "to_datetime_cell conv ((c # cs) ! Suc i) \<noteq> None" by blast
    then show "to_datetime_cell conv (cs ! i) \<noteq> None" by simp
  qed
  from Cons.IH [OF this] obtain ts where "to_datetime conv cs = Inr ts" by blast
  with t show ?case by simp
qed

lemma map_of_setitem: "map_of (setitem df name col) name = Some col"
  by (simp add: setitem_def update_conv')

lemma fillna_nth:
  "i < length a \<Longrightarrow> i < length b \<Longrightarrow> fillna a b ! i = (if a ! i \<noteq> NaN then a ! i else b ! i)"
  by (simp add: fillna_def)

lemma length_fillna: "length (fillna a b) = min (length a) (length b)"
  by (simp add: fillna_def)

lemma combine_date_column:
  assumes wf: "wf_frame csv" and ok: "combine_date csv = Inr df1"
  shows "\<exists>c0. map_of df1 ''Combined_Date'' = Some c0 \<and> length c0 = nrows csv
     \<and> (\<forall>i < nrows csv. c0 ! i =
           (if cell_at csv ''Date'' i \<noteq> NaN then cell_at csv ''Date'' i
            else cell_at csv ''date'' i))"
proof (cases "map_of csv ''Date''")
  case None
  note noDate = None
  show ?thesis
  proof (cases "map_of csv ''date''")
    case None
    with noDate ok show ?thesis by (simp add: combine_date_def in_columns_def getitem_def)
  next
    case (Some d)
    with noDate ok have df1: "df1 = setitem csv ''Combined_Date'' d"
      by (simp add: combine_date_def in_columns_def getitem_def)
    from wf Some have "length d = nrows csv" by (rule wf_frame_length)
    with noDate Some show ?thesis by (simp add: df1 map_of_setitem cell_at_def)
  qed
next
  case (Some D)
  note hasDate = Some
  from wf Some have lD: "length D = nrows csv" by (rule wf_frame_length)
  show ?thesis
  proof (cases "map_of csv ''date''")
    case None
    with hasDate ok have df1: "df1 = setitem csv ''Combined_Date'' D"
      by (simp add: combine_date_def in_columns_def getitem_def)
    with hasDate None lD show ?thesis by (simp add: df1 map_of_setitem cell_at_def)
  next
    case (Some d)
    with hasDate ok have df1: "df1 = setitem csv ''Combined_Date'' (fillna D d)"
      by (simp add: combine_date_def in_columns_def getitem_def)
    from wf Some have "length d = nrows csv" by (rule wf_frame_length)
    with hasDate Some lD show ?thesis
      by (simp add: df1 map_of_setitem cell_at_def length_fillna fillna_nth)
  qed
qed

lemma combine_date_succeeds:
  assumes "in_columns ''Date'' csv \<or> in_columns ''date'' csv"
  shows "\<exists>df1. combine_date csv = Inr df1"
  using assms by (auto simp: combine_date_def in_columns_def getitem_def)

lemma getitem_dropna:
  assumes "map_of df name = Some c"
  shows "dropna name df = Inr df' \<Longrightarrow>
     getitem df' k = (case map_of df k of None \<Rightarrow> Inl (KeyError k)
        | Some col \<Rightarrow> Inr (getitem_mask col (map (\<lambda>v. v \<noteq> NaN) c)))"
  using assms by (auto simp: dropna_def getitem_def map_of_map split: option.splits)

subsection \<open>Loading keeps the frame well formed\<close>

lemma list_all_update:
  "list_all (\<lambda>(n, c). length c = N) df \<Longrightarrow> length col = N \<Longrightarrow>
     list_all (\<lambda>(n, c). length c = N) (AList.update name col df)"
  by (induction df) auto

lemma wf_frame_setitem:
  assumes "wf_frame df" and "df \<noteq> []" and "length col = nrows df"
  shows "wf_frame (setitem df name col) \<and> nrows (setitem df name col) = nrows df"
proof -
  from assms(2) obtain n c rest where df: "df = (n, c) # rest" by (cases df) auto
  have n: "nrows (setitem df name col) = nrows df"
    using assms(3) by (simp add: df nrows_def setitem_def)
  have "distinct (map fst (setitem df name col))"
    using assms(1) by (simp add: wf_frame_def setitem_def distinct_update)
  moreover have "list_all (\<lambda>(n, c). length c = nrows df) (setitem df name col)"
    unfolding setitem_def using assms(1,3) by (intro list_all_update) (simp_all add: wf_frame_def)
  ultimately show ?thesis using n by (simp add: wf_frame_def)
qed

lemma combine_date_setitem:
  assumes "combine_date csv = Inr df1"
  shows "csv \<noteq> [] \<and> (\<exists>c0. df1 = setitem csv ''Combined_Date'' c0)"
  using assms
  by (auto simp: combine_date_def getitem_def in_columns_def split: if_splits option.splits)

lemma load_forecast_data_wf:
  assumes wf: "wf_frame csv" and ok: "load_forecast_data conv (Some csv) = Inr df"
  shows "wf_frame df \<and> nrows df = nrows csv"
proof -
  from ok obtain df1 c ts where
    c1: "combine_date csv = Inr df1" and c2: "getitem df1 ''Combined_Date'' = Inr c"
    and c3: "to_datetime conv c = Inr ts"
    and df: "df = setitem df1 ''Combined_Date'' (map timestamp_cell ts)"
    by (auto simp: load_forecast_data_def read_csv_def split: sum.splits)
  from combine_date_setitem [OF c1] obtain c0 where
    ne: "csv \<noteq> []" and df1: "df1 = setitem csv ''Combined_Date'' c0" by blast
  from combine_date_column [OF wf c1] obtain c0' where
    "map_of df1 ''Combined_Date'' = Some c0'" and l: "length c0' = nrows csv" by blast
  then have "c0' = c0" and cc: "c = c0" using c2 by (simp_all add: df1 map_of_setitem getitem_def)
  with l have l0: "length c0 = nrows csv" by simp
  from wf_frame_setitem [OF wf ne l0, of "''Combined_Date''"]
  have w1: "wf_frame df1" and n1: "nrows df1 = nrows csv" by (simp_all add: df1)
  have ne1: "df1 \<noteq> []" by (cases csv) (simp_all add: df1 setitem_def)
  from to_datetime_Inr [OF c3] cc l0 n1
  have "length (map timestamp_cell ts) = nrows df1" by simp
  from wf_frame_setitem [OF w1 ne1 this, of "''Combined_Date''"] n1
  show ?thesis by (simp add: df)
qed

subsection \<open>The forecast page on a well-formed frame\<close>

lemma ai_forecast_series:
  assumes "wf_frame df" and "map_of df ''Combined_Date'' = Some x"
    and "map_of df ''Actual_Count'' = Some y" and "map_of df ''Predicted_Count'' = Some p"
  shows "\<exists>px py. ai_forecast df = Inr (Forecast (x, y) (px, py))
     \<and> length x = nrows df \<and> length y = nrows df
     \<and> zip px py = filter (\<lambda>(d, v). v \<noteq> NaN) (zip x p)
     \<and> length px = length py \<and> length py = length (filter (\<lambda>v. v \<noteq> NaN) p)"
proof -
  let ?m = "map (\<lambda>v. v \<noteq> NaN) p"
  let ?px = "getitem_mask x ?m" and ?py = "getitem_mask p ?m"
  from assms have lx: "length x = nrows df" and ly: "length y = nrows df"
    and lp: "length p = nrows df" by (simp_all add: wf_frame_length)
  obtain df' where d: "dropna ''Predicted_Count'' df = Inr df'"
    using assms(4) by (simp add: dropna_def)
  from getitem_dropna [OF assms(4) d, of "''Combined_Date''"] assms(2)
  have gx: "getitem df' ''Combined_Date'' = Inr ?px" by simp
  from getitem_dropna [OF assms(4) d, of "''Predicted_Count''"] assms(4)
  have gy: "getitem df' ''Predicted_Count'' = Inr ?py" by simp
  have 1: "ai_forecast df = Inr (Forecast (x, y) (?px, ?py))"
    using assms(2,3) d gx gy by (simp add: ai_forecast_def getitem_def)
  have 2: "zip ?px ?py = filter (\<lambda>(d, v). v \<noteq> NaN) (zip x p)"
    using lx lp by (simp add: getitem_mask_zip)
  have 3: "length ?px = length ?py"
    using lx lp by (simp add: length_getitem_mask)
  have 4: "length ?py = length (filter (\<lambda>v. v \<noteq> NaN) p)"
    by (simp add: length_getitem_mask)
  show ?thesis
    by (rule exI [of _ ?px], rule exI [of _ ?py]) (intro conjI 1 lx ly 2 3 4)
qed

subsection \<open>Evaluating the examples\<close>

lemmas page_defs =
  total_enrol_def total_updates_def top_district_def top_districts_def migration_tracker_def
  demo_data_def groupby_sum_def group_keys_def group_sum_def series_sum_def cell_less_def
  nlargest_def sort_by_def getitem_mask_def count_value_def wrap64_def
  List.map_filter_simps

lemmas example_defs =
  example_row_def int64_frame_def example_arith_def example_totals_def example_overflow_def
  example_overflow_demographic_def example_blank_district_def example_districts_def
  example_master_def

lemmas spec_defs =
  count_sum_def enrolment_total_def update_total_def count_total_def district_total_def
  demographic_total_def int64_counts_def int64_cell_def int64_range_def count_value_def

lemma example_load_master:
  "load_master_data example_conv example_arith (Some example_master_csv) = Inr example_master"
  by (simp add: load_master_data_def read_csv_def to_datetime_cell_def set_date_def
      infer_dtype_def int64_cell_def int64_range_def example_conv_def example_master_csv_def
      example_master_def int64_frame_def)

lemma example_load_dates:
  "load_forecast_data example_conv (Some example_dates_csv) =
     Inr (example_dates_csv @
       [(''Combined_Date'', [Timestamp 1704067200000000000, Timestamp 1706745600000000000])])"
  by (simp add: load_forecast_data_def read_csv_def combine_date_def in_columns_def
      getitem_def setitem_def fillna_def to_datetime_cell_def timestamp_cell_def
      example_conv_def example_dates_csv_def)

lemma example_load_data:
  "load_data example_conv example_arith (Some example_master_csv) (Some example_dates_csv) =
     Inr (Some (example_master,
        example_dates_csv @
          [(''Combined_Date'', [Timestamp 1704067200000000000, Timestamp 1706745600000000000])]))"
  by (simp add: load_data_def example_load_master example_load_dates)

lemma example_load_data_no_rows:
  "load_data example_conv example_arith (Some []) (Some example_dates_csv) =
     Inr (Some (\<lparr>count_dtype = Object, rows = []\<rparr>,
        example_dates_csv @
          [(''Combined_Date'', [Timestamp 1704067200000000000, Timestamp 1706745600000000000])]))"
  by (simp add: load_data_def load_master_data_no_rows example_load_dates)

section \<open>The claims\<close>




text \<open>
  Claim C2. For every row of the forecast table, \<^verbatim>\<open>Combined_Date\<close> is the timestamp of
  the first present value among the columns \<^verbatim>\<open>Date\<close> and \<^verbatim>\<open>date\<close>: of \<^verbatim>\<open>Date\<close> when
  that is present, otherwise of \<^verbatim>\<open>date\<close>. The table is loaded whenever the file has
  one of the two columns and \<^verbatim>\<open>to_datetime\<close> accepts that value in every row.
\<close>

theorem combined_date_first_non_null:
  assumes wf: "wf_frame csv"
  shows "(\<forall>df i. load_forecast_data conv (Some csv) = Inr df \<longrightarrow> i < nrows csv \<longrightarrow>
            (\<exists>col t. map_of df ''Combined_Date'' = Some col \<and> length col = nrows csv
               \<and> to_datetime_cell conv (first_non_null csv i) = Some t
               \<and> col ! i = timestamp_cell t))
     \<and> ((in_columns ''Date'' csv \<or> in_columns ''date'' csv)
          \<and> (\<forall>i < nrows csv. to_datetime_cell conv (first_non_null csv i) \<noteq> None) \<longrightarrow>
            (\<exists>df. load_forecast_data conv (Some csv) = Inr df))"
proof (intro conjI allI impI)
  fix df i
  assume ok: "load_forecast_data conv (Some csv) = Inr df" and i: "i < nrows csv"
  from ok obtain df1 c ts where
    c1: "combine_date csv = Inr df1" and c2: "getitem df1 ''Combined_Date'' = Inr c"
    and c3: "to_datetime conv c = Inr ts"
    and df: "df = setitem df1 ''Combined_Date'' (map timestamp_cell ts)"
    by (auto simp: load_forecast_data_def read_csv_def split: sum.splits)
  from combine_date_column [OF wf c1] obtain c0 where
    m: "map_of df1 ''Combined_Date'' = Some c0" and l: "length c0 = nrows csv"
    and v: "\<forall>i < nrows csv. c0 ! i =
           (if cell_at csv ''Date'' i \<noteq> NaN then cell_at csv ''Date'' i
            else cell_at csv ''date'' i)" by blast
  from m c2 have "c = c0" by (simp add: getitem_def)
  with to_datetime_Inr [OF c3] l
  have lt: "length ts = nrows csv"
    and e: "\<forall>i < nrows csv. to_datetime_cell conv (c0 ! i) = Some (ts ! i)" by simp_all
  let ?col = "map timestamp_cell ts"
  have 1: "map_of df ''Combined_Date'' = Some ?col" by (simp add: df map_of_setitem)
  have 2: "length ?col = nrows csv" using lt by simp
  from v i have "c0 ! i = first_non_null csv i" unfolding first_non_null_def by blast
  moreover from e i have "to_datetime_cell conv (c0 ! i) = Some (ts ! i)" by blast
  ultimately have 3: "to_datetime_cell conv (first_non_null csv i) = Some (ts ! i)" by simp
  have 4: "?col ! i = timestamp_cell (ts ! i)" using lt i by simp
  show "\<exists>col t. map_of df ''Combined_Date'' = Some col \<and> length col = nrows csv
               \<and> to_datetime_cell conv (first_non_null csv i) = Some t
               \<and> col ! i = timestamp_cell t"
    by (rule exI [of _ ?col], rule exI [of _ "ts ! i"]) (intro conjI 1 2 3 4)
next
  assume a: "(in_columns ''Date'' csv \<or> in_columns ''date'' csv)
          \<and> (\<forall>i < nrows csv. to_datetime_cell conv (first_non_null csv i) \<noteq> None)"
  then obtain df1 where c1: "combine_date csv = Inr df1"
    using combine_date_succeeds by blast
  from combine_date_column [OF wf c1] obtain c0 where
    m: "map_of df1 ''Combined_Date'' = Some c0" and l: "length c0 = nrows csv"
    and v: "\<forall>i < nrows csv. c0 ! i =
           (if cell_at csv ''Date'' i \<noteq> NaN then cell_at csv ''Date'' i
            else cell_at csv ''date'' i)" by blast
  have "\<forall>i < length c0. to_datetime_cell conv (c0 ! i) \<noteq> None"
    using a v l unfolding first_non_null_def by simp
  from to_datetime_succeeds [OF this] obtain ts where "to_datetime conv c0 = Inr ts" by blast
  with c1 m show "\<exists>df. load_forecast_data conv (Some csv) = Inr df"
    by (simp add: load_forecast_data_def read_csv_def getitem_def)
qed

text \<open>
  The theorem at the two rows of the example, read at the second row:
  \<^verbatim>\<open>Date\<close> is missing there and \<^verbatim>\<open>date\<close> is 2024-02-01.
\<close>

theorem combined_date_first_non_null_witness:
  "wf_frame example_dates_csv
   \<and> load_forecast_data example_conv (Some example_dates_csv) =
       Inr (example_dates_csv @
         [(''Combined_Date'', [Timestamp 1704067200000000000, Timestamp 1706745600000000000])])
   \<and> 0 < nrows example_dates_csv \<and> 1 < nrows example_dates_csv
   \<and> first_non_null example_dates_csv 0 = Str ''2024-01-01''
   \<and> first_non_null example_dates_csv 1 = Str ''2024-02-01''
   \<and> cell_at (example_dates_csv @
         [(''Combined_Date'', [Timestamp 1704067200000000000, Timestamp 1706745600000000000])])
        ''Combined_Date'' 1 = Timestamp 1706745600000000000"
proof -
  let ?df = "example_dates_csv @
         [(''Combined_Date'', [Timestamp 1704067200000000000, Timestamp 1706745600000000000])]"
  have h1: "wf_frame example_dates_csv"
    by (simp add: wf_frame_def nrows_def example_dates_csv_def)
  have h2: "load_forecast_data example_conv (Some example_dates_csv) = Inr ?df"
    by (simp add: load_forecast_data_def read_csv_def combine_date_def in_columns_def
        getitem_def setitem_def fillna_def to_datetime_cell_def timestamp_cell_def
        example_conv_def example_dates_csv_def)
  have h3: "0 < nrows example_dates_csv" "1 < nrows example_dates_csv"
    by (simp_all add: nrows_def example_dates_csv_def)
  have s0: "first_non_null example_dates_csv 0 = Str ''2024-01-01''"
    by (simp add: first_non_null_def cell_at_def example_dates_csv_def)
  have s1: "first_non_null example_dates_csv 1 = Str ''2024-02-01''"
    by (simp add: first_non_null_def cell_at_def example_dates_csv_def)
  from combined_date_first_non_null [OF h1, of example_conv] h2 h3(2) obtain col t where
    c: "map_of ?df ''Combined_Date'' = Some col"
    and t: "to_datetime_cell example_conv (first_non_null example_dates_csv 1) = Some t"
    and v: "col ! 1 = timestamp_cell t"
    by blast
  have "to_datetime_cell example_conv (Str ''2024-02-01'') = Some (Some 1706745600000000000)"
    by (simp add: to_datetime_cell_def example_conv_def)
  with t s1 have "t = Some 1706745600000000000" by simp
  with c v have "cell_at ?df ''Combined_Date'' 1 = Timestamp 1706745600000000000"
    by (simp add: cell_at_def timestamp_cell_def)
  with h1 h2 h3 s0 s1 show ?thesis by blast
qed

text \<open>
  Claim C3. For a selected state other than ``All India'' the filtered view holds exactly
  the rows of that state, in order; every row of the view has that state, and the view and
  the rows of the other states together are the rows of the master table. For ``All India''
  the view is the master table itself. The filter is a function of its two arguments and
  returns a new table.
\<close>

theorem df_filtered_spec:
  "(s \<noteq> ''All India'' \<longrightarrow>
      rows (df_filtered df s) = filter (\<lambda>r. state r = Some s) (rows df)
      \<and> (\<forall>r \<in> set (rows (df_filtered df s)). state r = Some s)
      \<and> mset (rows (df_filtered df s)) + mset (filter (\<lambda>r. state r \<noteq> Some s) (rows df))
          = mset (rows df))
   \<and> (s = ''All India'' \<longrightarrow> df_filtered df s = df)"
  by (simp add: df_filtered_def getitem_mask_map)

text \<open>
  The theorem at a table of two states.
\<close>

theorem df_filtered_spec_witness:
  "''S1'' \<noteq> ''All India''
   \<and> rows (df_filtered
        (int64_frame [example_row ''S1'' ''A'' ''Enrolment'' 5, example_row ''S2'' ''B'' ''Enrolment'' 7])
        ''S1'')
       = [example_row ''S1'' ''A'' ''Enrolment'' 5]
   \<and> df_filtered
        (int64_frame [example_row ''S1'' ''A'' ''Enrolment'' 5, example_row ''S2'' ''B'' ''Enrolment'' 7])
        ''All India''
       = int64_frame [example_row ''S1'' ''A'' ''Enrolment'' 5, example_row ''S2'' ''B'' ''Enrolment'' 7]"
proof -
  let ?df = "int64_frame [example_row ''S1'' ''A'' ''Enrolment'' 5,
      example_row ''S2'' ''B'' ''Enrolment'' 7]"
  have ne: "''S1'' \<noteq> ''All India''" by simp
  with df_filtered_spec [of "''S1''" ?df]
  have "rows (df_filtered ?df ''S1'') = filter (\<lambda>r. state r = Some ''S1'') (rows ?df)" by blast
  then have 1: "rows (df_filtered ?df ''S1'') = [example_row ''S1'' ''A'' ''Enrolment'' 5]"
    by (simp add: example_row_def int64_frame_def)
  from df_filtered_spec [of "''All India''" ?df]
  have 2: "df_filtered ?df ''All India'' = ?df" by blast
  from ne 1 2 show ?thesis by blast
qed

text \<open>
  Claim C4 (as amended). For every filtered master table whose \<^verbatim>\<open>Count\<close> column is
  \<^verbatim>\<open>int64\<close>, Total Enrolments is the sum of \<^verbatim>\<open>Count\<close> over the rows of type
  \<^verbatim>\<open>Enrolment\<close> and Total Updates the sum over the other rows, each reduced to the 64-bit
  two's complement range; each total is the sum itself whenever that sum lies in the
  range.
\<close>

theorem totals_spec:
  assumes "int64_counts df"
  shows "total_enrol ar df = Inr (Num (wrap64 (enrolment_total df)))
   \<and> total_updates ar df = Inr (Num (wrap64 (update_total df)))
   \<and> (int64_range (enrolment_total df) \<longrightarrow> total_enrol ar df = Inr (Num (enrolment_total df)))
   \<and> (int64_range (update_total df) \<longrightarrow> total_updates ar df = Inr (Num (update_total df)))"
  using assms by (simp add: int64_counts_def total_enrol_int64 total_updates_int64 wrap64_id)

text \<open>
  The theorem at the three rows of the example: the totals are 100 and 50.
\<close>

theorem totals_spec_witness:
  "int64_counts example_totals
   \<and> int64_range (enrolment_total example_totals)
   \<and> int64_range (update_total example_totals)
   \<and> total_enrol example_arith example_totals = Inr (Num 100)
   \<and> total_updates example_arith example_totals = Inr (Num 50)"
proof -
  have h: "int64_counts example_totals" by (simp add: spec_defs example_defs)
  have e: "enrolment_total example_totals = 100" by (simp add: spec_defs example_defs)
  have u: "update_total example_totals = 50" by (simp add: spec_defs example_defs)
  have re: "int64_range (enrolment_total example_totals)" by (simp add: e int64_range_def)
  have ru: "int64_range (update_total example_totals)" by (simp add: u int64_range_def)
  from totals_spec [OF h, of example_arith] re ru
  have "total_enrol example_arith example_totals = Inr (Num (enrolment_total example_totals))"
    and "total_updates example_arith example_totals = Inr (Num (update_total example_totals))"
    by blast+
  with h re ru e u show ?thesis by simp
qed

text \<open>
  Claim C4 as stated fails where the sum leaves the range: for enrolment counts
  \<open>2\<^sup>6\<^sup>3 - 1\<close> and \<open>1\<close> the sum is \<open>2\<^sup>6\<^sup>3\<close> and Total Enrolments is \<open>- 2\<^sup>6\<^sup>3\<close>.
\<close>

theorem totals_overflow_counterexample:
  "total_enrol example_arith example_overflow = Inr (Num (- 9223372036854775808))
   \<and> enrolment_total example_overflow = 9223372036854775808"
  by (simp add: page_defs spec_defs example_defs)

text \<open>
  Claim C5. On an empty filtered master table the top-district computation raises the
  empty-reduction error (\<^verbatim>\<open>ValueError\<close>), the Executive Summary raises it too, and a run
  of the script that loaded its files and shows the Executive Summary ends with that
  exception instead of a rendered page.
\<close>

theorem executive_summary_empty_raises:
  "(rows df = [] \<longrightarrow>
      top_district ar df = Inl ValueError \<and> executive_summary ar df = Inl ValueError)
   \<and> (\<forall>df_master df_forecast.
         load_data conv ar master_csv forecast_csv = Inr (Some (df_master, df_forecast)) \<longrightarrow>
         rows (df_filtered df_master s) = [] \<longrightarrow>
         app conv ar master_csv forecast_csv Executive_Summary s = Raised ValueError)"
proof -
  have t: "top_district ar d = Inl ValueError" if "rows d = []"
    for d :: "int option master_frame"
    using that by (simp add: top_district_def groupby_sum_no_rows)
  have e: "executive_summary ar d = Inl ValueError" if "rows d = []"
    for d :: "int option master_frame"
    using that t [OF that]
    by (simp add: executive_summary_def total_enrol_def total_updates_def series_sum_def
        getitem_mask_def)
  show ?thesis using t e by (simp add: app_def render_def)
qed

text \<open>
  The theorem at an empty master file.
\<close>

theorem executive_summary_empty_raises_witness:
  "load_data example_conv example_arith (Some []) (Some example_dates_csv) =
     Inr (Some (\<lparr>count_dtype = Object, rows = []\<rparr>, example_dates_csv @
       [(''Combined_Date'', [Timestamp 1704067200000000000, Timestamp 1706745600000000000])]))
   \<and> rows (df_filtered (\<lparr>count_dtype = Object, rows = []\<rparr> :: int option master_frame)
        ''All India'') = []
   \<and> app example_conv example_arith (Some []) (Some example_dates_csv) Executive_Summary
        ''All India'' = Raised ValueError"
proof -
  let ?m = "\<lparr>count_dtype = Object, rows = []\<rparr> :: int option master_frame"
  have f: "rows (df_filtered ?m ''All India'') = []"
    by (simp add: df_filtered_def)
  from executive_summary_empty_raises [of _ example_arith example_conv "Some []"
      "Some example_dates_csv" "''All India''"] example_load_data_no_rows f
  have "app example_conv example_arith (Some []) (Some example_dates_csv) Executive_Summary
        ''All India'' = Raised ValueError" by blast
  with example_load_data_no_rows f show ?thesis by blast
qed

text \<open>
  Claim C6 (as amended). For every filtered master table whose \<^verbatim>\<open>Count\<close> column is
  \<^verbatim>\<open>int64\<close>, the chart data of the Migration Tracker lists districts that have a row of
  type \<^verbatim>\<open>Update_Demographic\<close>, each once and with the sum of \<^verbatim>\<open>Count\<close> over its rows of
  that type as the program computes it in 64-bit arithmetic; it has ten entries, or as
  many as there are such districts when these are fewer; it is in descending order of
  that sum; and no district left out has a larger sum than a district listed. When no
  district sum leaves the 64-bit range, the sums listed and compared are the summed
  \<^verbatim>\<open>Count\<close> itself. Rows with a blank district belong to no district.
\<close>

theorem top_districts_spec:
  assumes "int64_counts df"
  shows "\<exists>t. top_districts ar df = Inr t \<and> distinct (map fst t)
     \<and> (\<forall>(d, c) \<in> set t.
           d \<in> demographic_districts df \<and> c = Num (wrap64 (demographic_total df d)))
     \<and> length t = min 10 (card (demographic_districts df))
     \<and> sorted (rev (map (\<lambda>e. count_value (snd e)) t))
     \<and> (\<forall>d \<in> demographic_districts df - fst ` set t.
           \<forall>(d', c) \<in> set t. wrap64 (demographic_total df d) \<le> count_value c)
     \<and> ((\<forall>d \<in> demographic_districts df. int64_range (demographic_total df d)) \<longrightarrow>
          (\<forall>(d, c) \<in> set t. c = Num (demographic_total df d))
          \<and> (\<forall>d \<in> demographic_districts df - fst ` set t.
                \<forall>(d', c) \<in> set t. demographic_total df d \<le> count_value c))"
proof -
  let ?f = "\<lambda>e :: string \<times> cell. count_value (snd e)"
  let ?ks = "group_keys district (rows (demo_data df))"
  let ?g = "map (\<lambda>k. (k, Num (wrap64 (demographic_total df k)))) ?ks"
  let ?t = "take 10 (rev (sort_key ?f (rev ?g)))"
  from assms have dt: "count_dtype df = Int64" by (simp add: int64_counts_def)
  have g: "groupby_sum ar Int64 district Count (rows (demo_data df)) = Inr ?g"
    by (simp add: groupby_sum_int64 demo_group_total)
  have 0: "top_districts ar df = Inr ?t"
    by (simp add: top_districts_def demo_data_simps(1) dt g nlargest_int64)
  have fst_g: "map fst ?g = ?ks" by (simp add: comp_def)
  have entry: "(k, v) \<in> set ?g \<longleftrightarrow>
      k \<in> demographic_districts df \<and> v = Num (wrap64 (demographic_total df k))" for k v
    using demo_group_keys [of df] by auto
  have 1: "distinct (map fst ?t)"
    by (rule distinct_largest) (simp only: fst_g distinct_group_keys)
  have 2: "\<forall>(d, c) \<in> set ?t.
      d \<in> demographic_districts df \<and> c = Num (wrap64 (demographic_total df d))"
    using set_largest [of 10 ?f ?g] entry by blast
  have "card (set ?ks) = length ?ks"
    by (rule distinct_card) (rule distinct_group_keys)
  then have "length ?g = card (demographic_districts df)"
    by (simp add: demo_group_keys)
  then have 3: "length ?t = min 10 (card (demographic_districts df))"
    by (simp add: min.commute)
  have 4: "sorted (rev (map ?f ?t))" by (rule sorted_largest)
  have dom: "wrap64 (demographic_total df d) \<le> count_value c"
    if d: "d \<in> demographic_districts df" "d \<notin> fst ` set ?t"
      and y: "(d', c) \<in> set ?t" for d d' c
  proof -
    let ?x = "(d, Num (wrap64 (demographic_total df d)))"
    have "?x \<in> set ?g" using d(1) entry by blast
    moreover have "?x \<notin> set ?t" using d(2) by force
    ultimately have "?f ?x \<le> ?f (d', c)" using y by (rule largest_dominates)
    then show ?thesis by (simp add: count_value_def)
  qed
  then have 5: "\<forall>d \<in> demographic_districts df - fst ` set ?t.
           \<forall>(d', c) \<in> set ?t. wrap64 (demographic_total df d) \<le> count_value c"
    by blast
  have 6: "(\<forall>d \<in> demographic_districts df. int64_range (demographic_total df d)) \<longrightarrow>
          (\<forall>(d, c) \<in> set ?t. c = Num (demographic_total df d))
          \<and> (\<forall>d \<in> demographic_districts df - fst ` set ?t.
                \<forall>(d', c) \<in> set ?t. demographic_total df d \<le> count_value c)"
  proof
    assume "\<forall>d \<in> demographic_districts df. int64_range (demographic_total df d)"
    then have w: "\<forall>d \<in> demographic_districts df.
        wrap64 (demographic_total df d) = demographic_total df d"
      by (simp add: wrap64_id)
    have a: "\<forall>(d, c) \<in> set ?t. c = Num (demographic_total df d)"
      using 2 w by fastforce
    have b: "\<forall>d \<in> demographic_districts df - fst ` set ?t.
                \<forall>(d', c) \<in> set ?t. demographic_total df d \<le> count_value c"
    proof (intro ballI)
      fix d e
      assume d: "d \<in> demographic_districts df - fst ` set ?t" and e: "e \<in> set ?t"
      obtain d' c where dc: "e = (d', c)" by (cases e)
      from d e dc have "wrap64 (demographic_total df d) \<le> count_value c"
        using dom by blast
      moreover from d w have "wrap64 (demographic_total df d) = demographic_total df d"
        by blast
      ultimately show "case e of (d', c) \<Rightarrow> demographic_total df d \<le> count_value c"
        by (simp add: dc)
    qed
    from a b show "(\<forall>(d, c) \<in> set ?t. c = Num (demographic_total df d))
          \<and> (\<forall>d \<in> demographic_districts df - fst ` set ?t.
                \<forall>(d', c) \<in> set ?t. demographic_total df d \<le> count_value c)" ..
  qed
  show ?thesis by (rule exI [of _ ?t]) (intro conjI 0 1 2 3 4 5 6)
qed

text \<open>
  The theorem at a table of eleven districts: ten are listed, the one left out has the
  smallest sum.
\<close>

theorem top_districts_spec_witness:
  "int64_counts example_districts
   \<and> top_districts example_arith example_districts =
       Inr [(''d02'', Num 110), (''d09'', Num 100), (''d05'', Num 90), (''d11'', Num 80),
            (''d07'', Num 70), (''d10'', Num 60), (''d03'', Num 50), (''d08'', Num 40),
            (''d01'', Num 35), (''d04'', Num 20)]
   \<and> ''d06'' \<in> demographic_districts example_districts
   \<and> wrap64 (demographic_total example_districts ''d06'') \<le> 20
   \<and> 10 = min 10 (card (demographic_districts example_districts))"
proof -
  let ?l = "[(''d02'', Num 110), (''d09'', Num 100), (''d05'', Num 90), (''d11'', Num 80),
            (''d07'', Num 70), (''d10'', Num 60), (''d03'', Num 50), (''d08'', Num 40),
            (''d01'', Num 35), (''d04'', Num 20)]"
  have h: "int64_counts example_districts" by (simp add: spec_defs example_defs)
  have ev: "top_districts example_arith example_districts = Inr ?l"
    by code_simp
  have d6: "''d06'' \<in> demographic_districts example_districts"
    by (simp add: demographic_districts_list example_defs List.map_filter_simps)
  from top_districts_spec [OF h, of example_arith] obtain t where
    t: "top_districts example_arith example_districts = Inr t"
    and len: "length t = min 10 (card (demographic_districts example_districts))"
    and dom: "\<forall>d \<in> demographic_districts example_districts - fst ` set t.
         \<forall>(d', c) \<in> set t. wrap64 (demographic_total example_districts d) \<le> count_value c"
    by blast
  from t ev have tl: "t = ?l" by simp
  have "''d06'' \<notin> fst ` set t" unfolding tl by simp
  with d6 have out: "''d06'' \<in> demographic_districts example_districts - fst ` set t" by blast
  have inn: "(''d04'', Num 20) \<in> set t" unfolding tl by simp
  from dom out inn have "wrap64 (demographic_total example_districts ''d06'')
      \<le> count_value (Num 20)" by blast
  then have 4: "wrap64 (demographic_total example_districts ''d06'') \<le> 20"
    by (simp add: count_value_def)
  from len have 5: "10 = min 10 (card (demographic_districts example_districts))"
    unfolding tl by simp
  from h ev d6 4 5 show ?thesis by blast
qed

text \<open>
  Claim C6 as stated fails in two ways. Where the sum of district \<open>A\<close> is \<open>2\<^sup>6\<^sup>3\<close>
  it wraps around, and the chart lists \<open>B\<close>, whose sum is \<open>5\<close>, before \<open>A\<close>. And for a
  master file without rows the \<^verbatim>\<open>Count\<close> column has type \<^verbatim>\<open>object\<close> and line 136 raises
  \<^verbatim>\<open>TypeError\<close> instead of computing chart data.
\<close>

theorem top_districts_counterexample:
  "top_districts example_arith example_overflow_demographic
     = Inr [(''B'', Num 5), (''A'', Num (- 9223372036854775808))]
   \<and> demographic_total example_overflow_demographic ''A'' = 9223372036854775808
   \<and> demographic_total example_overflow_demographic ''B'' = 5
   \<and> load_master_data example_conv example_arith (Some [])
       = Inr \<lparr>count_dtype = Object, rows = []\<rparr>
   \<and> top_districts example_arith (\<lparr>count_dtype = Object, rows = []\<rparr> :: int option master_frame)
       = Inl TypeError"
proof -
  have 1: "top_districts example_arith example_overflow_demographic
     = Inr [(''B'', Num 5), (''A'', Num (- 9223372036854775808))]"
    by (simp add: page_defs example_defs)
  have 2: "demographic_total example_overflow_demographic ''A'' = 9223372036854775808"
    by (simp add: spec_defs example_defs)
  have 3: "demographic_total example_overflow_demographic ''B'' = 5"
    by (simp add: spec_defs example_defs)
  have 5: "top_districts example_arith
      (\<lparr>count_dtype = Object, rows = []\<rparr> :: int option master_frame) = Inl TypeError"
    by (simp add: page_defs)
  from 1 2 3 load_master_data_no_rows [of example_conv example_arith] 5 show ?thesis by blast
qed

text \<open>
  Claim C7 (as amended). When the \<^verbatim>\<open>Count\<close> column of the filtered master table is
  numeric and no row has type \<^verbatim>\<open>Update_Demographic\<close>, the top-districts table is empty,
  the Migration Tracker hands the empty table to the chart without raising, and a run of
  the script that loaded its files renders that page. When the column has type
  \<^verbatim>\<open>object\<close>, as for a master file without rows, the page raises \<^verbatim>\<open>TypeError\<close>.
\<close>

theorem migration_tracker_no_demographic:
  "(count_dtype df \<noteq> Object \<and> list_all (\<lambda>r. Type r \<noteq> Some ''Update_Demographic'') (rows df) \<longrightarrow>
      top_districts ar df = Inr [] \<and> migration_tracker ar df = Inr (Migration []))
   \<and> (count_dtype df = Object \<and> list_all (\<lambda>r. Type r \<noteq> Some ''Update_Demographic'') (rows df) \<longrightarrow>
      migration_tracker ar df = Inl TypeError)
   \<and> (\<forall>df_master df_forecast.
         load_data conv ar master_csv forecast_csv = Inr (Some (df_master, df_forecast)) \<longrightarrow>
         count_dtype df_master \<noteq> Object \<longrightarrow>
         list_all (\<lambda>r. Type r \<noteq> Some ''Update_Demographic'') (rows (df_filtered df_master s)) \<longrightarrow>
         app conv ar master_csv forecast_csv Migration_Tracker s = Rendered (Migration []))"
proof -
  have dt: "count_dtype (df_filtered m s) = count_dtype m" for m :: "int option master_frame"
    by (simp add: df_filtered_def)
  show ?thesis
    by (simp add: top_districts_no_demographic migration_tracker_def app_def render_def dt)
qed

text \<open>
  The theorem at a master file with an enrolment row and a biometric update.
\<close>

theorem migration_tracker_no_demographic_witness:
  "count_dtype example_master \<noteq> Object
   \<and> list_all (\<lambda>r. Type r \<noteq> Some ''Update_Demographic'') (rows example_master)
   \<and> migration_tracker example_arith example_master = Inr (Migration [])
   \<and> app example_conv example_arith (Some example_master_csv) (Some example_dates_csv)
        Migration_Tracker ''S'' = Rendered (Migration [])"
proof -
  have h1: "count_dtype example_master \<noteq> Object" by (simp add: example_defs)
  have h2: "list_all (\<lambda>r. Type r \<noteq> Some ''Update_Demographic'') (rows example_master)"
    by (simp add: example_defs)
  have h3: "list_all (\<lambda>r. Type r \<noteq> Some ''Update_Demographic'')
      (rows (df_filtered example_master ''S''))"
    by (simp add: df_filtered_def getitem_mask_def example_defs)
  from migration_tracker_no_demographic [of example_master example_arith] h1 h2
  have 1: "migration_tracker example_arith example_master = Inr (Migration [])" by blast
  from migration_tracker_no_demographic [of _ example_arith example_conv
      "Some example_master_csv" "Some example_dates_csv" "''S''"] example_load_data h1 h3
  have 2: "app example_conv example_arith (Some example_master_csv) (Some example_dates_csv)
       Migration_Tracker ''S'' = Rendered (Migration [])" by blast
  from h1 h2 1 2 show ?thesis by blast
qed

text \<open>
  Claim C7 as stated fails for the master file without rows: no row has type
  \<^verbatim>\<open>Update_Demographic\<close>, and the Migration Tracker raises \<^verbatim>\<open>TypeError\<close>.
\<close>

theorem migration_tracker_no_rows_counterexample:
  "list_all (\<lambda>r. Type r \<noteq> Some ''Update_Demographic'')
     (rows (df_filtered (\<lparr>count_dtype = Object, rows = []\<rparr> :: int option master_frame)
        ''All India''))
   \<and> app example_conv example_arith (Some []) (Some example_dates_csv) Migration_Tracker
        ''All India'' = Raised TypeError"
proof -
  have 1: "list_all (\<lambda>r. Type r \<noteq> Some ''Update_Demographic'')
     (rows (df_filtered (\<lparr>count_dtype = Object, rows = []\<rparr> :: int option master_frame)
        ''All India''))"
    by (simp add: df_filtered_def)
  have 2: "app example_conv example_arith (Some []) (Some example_dates_csv) Migration_Tracker
        ''All India'' = Raised TypeError"
    by (simp add: app_def example_load_data_no_rows render_def df_filtered_def page_defs)
  from 1 2 show ?thesis ..
qed

text \<open>
  Claim C8. On a loaded forecast table the ``Actual Data'' trace holds the date and the
  actual count of every row, and the points of the ``AI Forecast'' trace are exactly the
  (date, prediction) pairs of the rows whose \<^verbatim>\<open>Predicted_Count\<close> is present, in row order:
  as many points as there are such rows.
\<close>

theorem forecast_series_exactly_predicted:
  assumes "wf_frame csv" and "load_forecast_data conv (Some csv) = Inr df"
    and "map_of df ''Actual_Count'' = Some y" and "map_of df ''Predicted_Count'' = Some p"
  shows "\<exists>x px py. map_of df ''Combined_Date'' = Some x
     \<and> ai_forecast df = Inr (Forecast (x, y) (px, py))
     \<and> length x = nrows csv \<and> length y = nrows csv
     \<and> zip px py = filter (\<lambda>(d, v). v \<noteq> NaN) (zip x p)
     \<and> length px = length py \<and> length py = length (filter (\<lambda>v. v \<noteq> NaN) p)"
proof -
  from load_forecast_data_wf [OF assms(1,2)]
  have w: "wf_frame df" and n: "nrows df = nrows csv" by simp_all
  from assms(2) obtain x where x: "map_of df ''Combined_Date'' = Some x"
    by (auto simp: load_forecast_data_def read_csv_def map_of_setitem split: sum.splits)
  from ai_forecast_series [OF w x assms(3,4)] obtain px py where
    "ai_forecast df = Inr (Forecast (x, y) (px, py))"
    "length x = nrows df" "length y = nrows df"
    "zip px py = filter (\<lambda>(d, v). v \<noteq> NaN) (zip x p)"
    "length px = length py" "length py = length (filter (\<lambda>v. v \<noteq> NaN) p)" by blast
  with x n show ?thesis by auto
qed

text \<open>
  The theorem at a file of ten rows of which three have a prediction: the forecast trace
  has those three points.
\<close>

theorem forecast_series_exactly_predicted_witness:
  "wf_frame example_forecast_csv
   \<and> app example_conv example_arith (Some example_master_csv) (Some example_forecast_csv)
        AI_Forecast ''All India'' =
       Rendered (Forecast
         (map (\<lambda>d. Timestamp (d * 86400000000000))
            [19723, 19754, 19783, 19814, 19844, 19875, 19905, 19936, 19967, 19997],
          [Num 900, Num 880, Num 860, Num 850, Num 830, Num 800, Num 790, NaN, NaN, NaN])
         (map (\<lambda>d. Timestamp (d * 86400000000000)) [19936, 19967, 19997],
          [Num 770, Num 750, Num 730]))
   \<and> length [Num 770, Num 750, Num 730] =
       length (filter (\<lambda>v. v \<noteq> NaN)
         [NaN, NaN, NaN, NaN, NaN, NaN, NaN, Num 770, Num 750, Num 730])"
proof -
  let ?x = "map (\<lambda>d. Timestamp (d * 86400000000000))
            [19723, 19754, 19783, 19814, 19844, 19875, 19905, 19936, 19967, 19997]"
  let ?y = "[Num 900, Num 880, Num 860, Num 850, Num 830, Num 800, Num 790, NaN, NaN, NaN]"
  let ?p = "[NaN, NaN, NaN, NaN, NaN, NaN, NaN, Num 770, Num 750, Num 730]"
  let ?df = "example_forecast_csv @ [(''Combined_Date'', ?x)]"
  have h1: "wf_frame example_forecast_csv"
    by (simp add: wf_frame_def nrows_def example_forecast_csv_def)
  have h2: "load_forecast_data example_conv (Some example_forecast_csv) = Inr ?df"
    by (simp add: load_forecast_data_def read_csv_def combine_date_def in_columns_def
        getitem_def setitem_def to_datetime_cell_def timestamp_cell_def
        example_conv_def example_forecast_csv_def)
  have h3: "map_of ?df ''Actual_Count'' = Some ?y" by (simp add: example_forecast_csv_def)
  have h4: "map_of ?df ''Predicted_Count'' = Some ?p" by (simp add: example_forecast_csv_def)
  have ev: "ai_forecast ?df = Inr (Forecast (?x, ?y)
      (map (\<lambda>d. Timestamp (d * 86400000000000)) [19936, 19967, 19997],
       [Num 770, Num 750, Num 730]))"
    by (simp add: ai_forecast_def getitem_def dropna_def getitem_mask_def
        example_forecast_csv_def)
  from forecast_series_exactly_predicted [OF h1 h2 h3 h4] obtain x px py where
    a: "ai_forecast ?df = Inr (Forecast (x, ?y) (px, py))"
    and l: "length py = length (filter (\<lambda>v. v \<noteq> NaN) ?p)" by blast
  from a ev have "py = [Num 770, Num 750, Num 730]" by simp
  with l have 3: "length [Num 770, Num 750, Num 730] = length (filter (\<lambda>v. v \<noteq> NaN) ?p)"
    by simp
  have 2: "app example_conv example_arith (Some example_master_csv) (Some example_forecast_csv)
        AI_Forecast ''All India'' = Rendered (Forecast (?x, ?y)
      (map (\<lambda>d. Timestamp (d * 86400000000000)) [19936, 19967, 19997],
       [Num 770, Num 750, Num 730]))"
    using ev by (simp add: app_def load_data_def example_load_master h2 render_def)
  from h1 2 3 show ?thesis by blast
qed

text \<open>
  Claim C9 (as amended). For every filtered master table whose \<^verbatim>\<open>Count\<close> column is
  \<^verbatim>\<open>int64\<close>, Total Enrolments plus Total Updates agrees with the sum of \<^verbatim>\<open>Count\<close> over
  all rows up to a multiple of \<open>2\<^sup>6\<^sup>4\<close>, and equals it whenever the sum over the
  enrolment rows and the sum over the other rows both lie in the 64-bit range.
\<close>

theorem totals_partition:
  assumes "int64_counts df"
  shows "\<exists>e u. total_enrol ar df = Inr (Num e) \<and> total_updates ar df = Inr (Num u)
     \<and> wrap64 (e + u) = wrap64 (count_total df)
     \<and> (int64_range (enrolment_total df) \<and> int64_range (update_total df) \<longrightarrow>
          e + u = count_total df)"
proof -
  let ?E = "enrolment_total df" and ?U = "update_total df"
  from assms have dt: "count_dtype df = Int64" by (simp add: int64_counts_def)
  have 1: "total_enrol ar df = Inr (Num (wrap64 ?E))" using dt by (rule total_enrol_int64)
  have 2: "total_updates ar df = Inr (Num (wrap64 ?U))" using dt by (rule total_updates_int64)
  have 3: "wrap64 (wrap64 ?E + wrap64 ?U) = wrap64 (count_total df)"
    by (simp add: wrap64_add enrolment_update_total)
  have 4: "int64_range ?E \<and> int64_range ?U \<longrightarrow> wrap64 ?E + wrap64 ?U = count_total df"
    by (simp add: wrap64_id enrolment_update_total)
  show ?thesis
    by (rule exI [of _ "wrap64 ?E"], rule exI [of _ "wrap64 ?U"]) (intro conjI 1 2 3 4)
qed

text \<open>
  The theorem at the three rows of the totals example: 100 and 50 add up to the sum of
  all counts.
\<close>

theorem totals_partition_witness:
  "int64_counts example_totals
   \<and> int64_range (enrolment_total example_totals)
   \<and> int64_range (update_total example_totals)
   \<and> total_enrol example_arith example_totals = Inr (Num 100)
   \<and> total_updates example_arith example_totals = Inr (Num 50)
   \<and> 100 + 50 = count_total example_totals"
proof -
  have h: "int64_counts example_totals" by (simp add: spec_defs example_defs)
  have re: "int64_range (enrolment_total example_totals)" by (simp add: spec_defs example_defs)
  have ru: "int64_range (update_total example_totals)" by (simp add: spec_defs example_defs)
  have ee: "total_enrol example_arith example_totals = Inr (Num 100)"
    by (simp add: page_defs example_defs)
  have eu: "total_updates example_arith example_totals = Inr (Num 50)"
    by (simp add: page_defs example_defs)
  from totals_partition [OF h, of example_arith] re ru obtain e u where
    "total_enrol example_arith example_totals = Inr (Num e)"
    "total_updates example_arith example_totals = Inr (Num u)"
    "e + u = count_total example_totals" by blast
  with ee eu have "100 + 50 = count_total example_totals" by simp
  with h re ru ee eu show ?thesis by blast
qed

text \<open>
  Claim C9 as stated fails where the enrolment sum leaves the range: the totals are
  \<open>- 2\<^sup>6\<^sup>3\<close> and \<open>5\<close>, and the sum of all counts is \<open>2\<^sup>6\<^sup>3 + 5\<close>.
\<close>

theorem totals_partition_counterexample:
  "total_enrol example_arith example_overflow = Inr (Num (- 9223372036854775808))
   \<and> total_updates example_arith example_overflow = Inr (Num 5)
   \<and> count_total example_overflow = 9223372036854775813"
  by (simp add: page_defs spec_defs example_defs)

text \<open>
  Claim C10. When the forecast file has neither a \<^verbatim>\<open>Date\<close> nor a \<^verbatim>\<open>date\<close> column,
  \<^verbatim>\<open>load_forecast_data\<close> raises \<^verbatim>\<open>KeyError('date')\<close>; the script, once the master file
  is loaded, ends with that exception and not in the ``Waiting for data...'' state.
\<close>

theorem load_forecast_no_date_column:
  assumes "\<not> in_columns ''Date'' csv" and "\<not> in_columns ''date'' csv"
  shows "load_forecast_data conv (Some csv) = Inl (KeyError ''date'')
     \<and> (\<forall>df_master. load_master_data conv ar master_csv = Inr df_master \<longrightarrow>
           app conv ar master_csv (Some csv) p s = Raised (KeyError ''date''))"
proof -
  from assms have "combine_date csv = Inl (KeyError ''date'')"
    by (simp add: combine_date_def getitem_def in_columns_def)
  then have l: "load_forecast_data conv (Some csv) = Inl (KeyError ''date'')"
    by (simp add: load_forecast_data_def read_csv_def)
  then show ?thesis by (simp add: app_def load_data_def)
qed

text \<open>
  The theorem at a forecast file with the two count columns only.
\<close>

theorem load_forecast_no_date_column_witness:
  "\<not> in_columns ''Date'' [(''Actual_Count'', [Num 900]), (''Predicted_Count'', [NaN])]
   \<and> \<not> in_columns ''date'' [(''Actual_Count'', [Num 900]), (''Predicted_Count'', [NaN])]
   \<and> load_forecast_data example_conv
        (Some [(''Actual_Count'', [Num 900]), (''Predicted_Count'', [NaN])])
       = Inl (KeyError ''date'')
   \<and> app example_conv example_arith (Some example_master_csv)
        (Some [(''Actual_Count'', [Num 900]), (''Predicted_Count'', [NaN])])
        AI_Forecast ''All India''
       = Raised (KeyError ''date'')"
proof -
  let ?csv = "[(''Actual_Count'', [Num 900]), (''Predicted_Count'', [NaN])]"
  have h1: "\<not> in_columns ''Date'' ?csv" by (simp add: in_columns_def)
  have h2: "\<not> in_columns ''date'' ?csv" by (simp add: in_columns_def)
  from load_forecast_no_date_column [OF h1 h2, of example_conv example_arith
      "Some example_master_csv" AI_Forecast "''All India''"] example_load_master
  have "load_forecast_data example_conv (Some ?csv) = Inl (KeyError ''date'')"
    and "app example_conv example_arith (Some example_master_csv) (Some ?csv) AI_Forecast
       ''All India'' = Raised (KeyError ''date'')" by blast+
  with h1 h2 show ?thesis by blast
qed

end
